theory Spec2Isabelle
  imports Main
begin

section \<open>Strings, exceptions and the process environment\<close>

text \<open>
  The program is \<^verbatim>\<open>shopsurfer_agent_ui.py\<close>: a request handler \<^verbatim>\<open>search_products\<close> that
  validates two credential strings, stores them in \<^verbatim>\<open>os.environ\<close> and runs a crew of four
  agents over four tasks through the orchestration framework.

  A Python string is a \<^typ>\<open>string\<close>; a character stands for the code point of the same
  number, so the model covers the strings whose code points are below 256.
  \<^verbatim>\<open>str.strip()\<close> without argument removes leading and trailing whitespace, which for
  these code points is the set that \<^verbatim>\<open>str.isspace\<close> accepts:
  9 to 13, 28 to 32, 133 and 160.
\<close>

definition isspace :: "char \<Rightarrow> bool" where
  "isspace c = (of_char c \<in> {9, 10, 11, 12, 13, 28, 29, 30, 31, 32, 133, 160 :: nat})"

definition strip :: "string \<Rightarrow> string" where
  "strip s = rev (dropWhile isspace (rev (dropWhile isspace s)))"

text \<open>
  A raised exception is a value; \<open>str\<close> is the text that \<^verbatim>\<open>str(e)\<close> gives. The type
  stands for the instances of Python's \<^verbatim>\<open>Exception\<close>, the class the handler names.
\<close>

datatype exn = Exception (str: string)

text \<open>
  \<^verbatim>\<open>os.environ\<close> is taken as the dictionary it presents: a map from names to values, and
  an assignment to a key is a map update that does not raise. (The interpreter refuses a
  value that holds a NUL character; credentials are taken as text without one.)
\<close>

type_synonym environ = "string \<rightharpoonup> string"

section \<open>The framework's data: tools, agents, tasks, crews\<close>

text \<open>
  The three tool adapters are stateless wrappers; a tool object is identified by its class.
  The framework's constructors \<^verbatim>\<open>Agent\<close>, \<^verbatim>\<open>Task\<close> and \<^verbatim>\<open>Crew\<close> are taken as plain
  constructions of the data they are given.
\<close>

datatype tool = SerperDevTool | WebsiteSearchTool | ScrapeWebsiteTool

text \<open>
  An agent as the source constructs it. Where the source passes no \<^verbatim>\<open>tools\<close>, the field
  holds the empty list.
\<close>

record Agent =
  role :: string
  goal :: string
  backstory :: string
  tools :: "tool list"
  verbose :: bool

text \<open>
  A task: its prompt, its agent, the earlier tasks whose outputs it consumes (the field
  \<^verbatim>\<open>context\<close> of the source; where the source passes none, the list is empty) and the
  descriptive \<^verbatim>\<open>expected_output\<close>.
\<close>

datatype Task =
  Task (description: string) (agent: Agent) (context_tasks: "Task list") (expected_output: string)

datatype Process = sequential | hierarchical

record Crew =
  agents :: "Agent list"
  tasks :: "Task list"
  verbose :: bool
  process :: Process

section \<open>The external collaborators and the observable state\<close>

text \<open>
  Everything the handler calls outside its own file is a parameter of the model.
  \<open>new_tool env t\<close> is the outcome of constructing tool \<open>t\<close> in environment \<open>env\<close>:
  \<open>None\<close> when the constructor returns, \<open>Some e\<close> when it raises \<open>e\<close>.
  \<open>crew_kickoff env crew\<close> is the outcome of \<^verbatim>\<open>crew.kickoff()\<close>: the stages the
  executor ran (task and prompt, in order), and the raised exception or the returned text.
  The collaborators read the environment and do not write it; they are taken to return.
\<close>

record externals =
  new_tool :: "environ \<Rightarrow> tool \<Rightarrow> exn option"
  crew_kickoff :: "environ \<Rightarrow> Crew \<Rightarrow> (Task \<times> string) list \<times> (exn + string)"

text \<open>
  The state of the process: the environment, and two histories that make the handler's
  behaviour observable. \<open>calls\<close> lists what the handler's code invoked, each with the
  environment it ran in; \<open>stages\<close> lists the stages the executor reported.
\<close>

datatype call = New_tool tool environ | Kickoff Crew environ

record process_state =
  environ :: environ
  calls :: "call list"
  stages :: "(Task \<times> string) list"

section \<open>ShoppingCrew\<close>

record ShoppingCrew =
  search_tool :: tool
  website_search_tool :: tool
  scrape_tool :: tool

text \<open>Constructing one tool: the call is recorded, then the constructor returns or raises.\<close>

definition construct_tool ::
  "externals \<Rightarrow> tool \<Rightarrow> process_state \<Rightarrow> process_state \<times> (exn + tool)" where
  "construct_tool ext t s =
     (let s' = s\<lparr>calls := calls s @ [New_tool t (environ s)]\<rparr>
      in case new_tool ext (environ s) t of
           Some e \<Rightarrow> (s', Inl e)
         | None \<Rightarrow> (s', Inr t))"

text \<open>\<^verbatim>\<open>ShoppingCrew.__init__\<close>: the three tools, in the order of the source.\<close>

definition ShoppingCrew_init ::
  "externals \<Rightarrow> process_state \<Rightarrow> process_state \<times> (exn + ShoppingCrew)" where
  "ShoppingCrew_init ext s =
     (case construct_tool ext SerperDevTool s of
        (s1, Inl e) \<Rightarrow> (s1, Inl e)
      | (s1, Inr t1) \<Rightarrow>
     (case construct_tool ext WebsiteSearchTool s1 of
        (s2, Inl e) \<Rightarrow> (s2, Inl e)
      | (s2, Inr t2) \<Rightarrow>
     (case construct_tool ext ScrapeWebsiteTool s2 of
        (s3, Inl e) \<Rightarrow> (s3, Inl e)
      | (s3, Inr t3) \<Rightarrow>
          (s3, Inr \<lparr>search_tool = t1, website_search_tool = t2, scrape_tool = t3\<rparr>))))"

text \<open>\<^verbatim>\<open>create_agents\<close>: four agent records.\<close>

definition create_agents :: "ShoppingCrew \<Rightarrow> Agent \<times> Agent \<times> Agent \<times> Agent" where
  "create_agents self =
     (let
       verification_agent = \<lparr>
         role = ''Product Specification Verifier'',
         goal = ''Verify exact product details and model information'',
         backstory =
            ''You are a technical specialist who verifies product specifications, \<newline>'' @
            ''            model numbers, and ensures accuracy of product information. You have extensive \<newline>'' @
            ''            experience in consumer electronics and can spot incorrect or outdated information.'',
         tools = [search_tool self, website_search_tool self],
         verbose = True\<rparr>;
       research_agent = \<lparr>
         role = ''Product Research Specialist'',
         goal = ''Conduct comprehensive product research including customer reviews and availability'',
         backstory =
            ''You are an expert product researcher who specializes in \<newline>'' @
            ''            detailed product analysis. You focus on gathering authentic customer reviews,\<newline>'' @
            ''            checking real-time stock availability, and verifying warranty information.\<newline>'' @
            ''            You know how to distinguish genuine reviews from fake ones and can provide\<newline>'' @
            ''            balanced perspectives from actual users.'',
         tools = [search_tool self, website_search_tool self, scrape_tool self],
         verbose = True\<rparr>;
       deal_finder_agent = \<lparr>
         role = ''Deals Analysis Expert'',
         goal = ''Find and verify current deals with specific dates and conditions'',
         backstory =
            ''You are a professional deal finder who specializes in \<newline>'' @
            ''            tracking promotion dates and conditions. You verify the legitimacy of deals,\<newline>'' @
            ''            understand complex terms and conditions, and can find hidden savings\<newline>'' @
            ''            opportunities. You're expert at comparing warranty options and total ownership costs.'',
         tools = [search_tool self, website_search_tool self, scrape_tool self],
         verbose = True\<rparr>;
       report_agent = \<lparr>
         role = ''Shopping Report Specialist'',
         goal = ''Create detailed, accurate shopping reports with specific links and availability info'',
         backstory =
            ''You are an experienced shopping analyst who creates \<newline>'' @
            ''            comprehensive reports. You ensure all information is current and accurate,\<newline>'' @
            ''            include specific product links, and provide detailed availability information.\<newline>'' @
            ''            You excel at presenting complex information in an easy-to-understand format\<newline>'' @
            ''            while maintaining technical accuracy.'',
         tools = [],
         verbose = True\<rparr>
      in (verification_agent, research_agent, deal_finder_agent, report_agent))"

text \<open>
  \<^verbatim>\<open>create_tasks\<close>. The prompt texts are the string literals of the source, one constant
  each; the two that are f-strings take the query.
\<close>

definition verification_description :: "string \<Rightarrow> string" where
  "verification_description query =
     ''Verify exact product specifications for: '' @
     query @
     ''\<newline>'' @
     ''            \<newline>'' @
     ''            Required Steps:\<newline>'' @
     ''            1. Confirm exact model number and name\<newline>'' @
     ''            2. Verify all technical specifications\<newline>'' @
     ''            3. Check for any recent product updates or revisions\<newline>'' @
     ''            4. Confirm product variants and options\<newline>'' @
     ''            5. Validate compatibility information\<newline>'' @
     ''            \<newline>'' @
     ''            Return:\<newline>'' @
     ''            - Exact model numbers and names\<newline>'' @
     ''            - Confirmed specifications\<newline>'' @
     ''            - Any discrepancies found\<newline>'' @
     ''            - Latest product updates''"

definition verification_expected_output :: string where
  "verification_expected_output =
     ''Detailed product verification findings''"

definition research_description :: "string \<Rightarrow> string" where
  "research_description query =
     ''Research this product in detail: '' @
     query @
     ''\<newline>'' @
     ''            \<newline>'' @
     ''            Required Steps:\<newline>'' @
     ''            1. Search for the product across major retailers\<newline>'' @
     ''            2. Collect and analyze customer reviews (minimum 10)\<newline>'' @
     ''            3. Check current stock availability\<newline>'' @
     ''            4. Verify warranty options and terms\<newline>'' @
     ''            5. Analyze return policies\<newline>'' @
     ''            6. Compare technical specifications\<newline>'' @
     ''            \<newline>'' @
     ''            Return findings including:\<newline>'' @
     ''            - Verified retailer list with exact product page URLs\<newline>'' @
     ''            - Detailed warranty information\<newline>'' @
     ''            - Stock availability status\<newline>'' @
     ''            - Curated customer reviews (positive and negative)\<newline>'' @
     ''            - Technical specifications comparison\<newline>'' @
     ''            - Return policy details''"

definition research_expected_output :: string where
  "research_expected_output =
     ''Detailed product research findings which should \<newline>'' @
     ''             Verified retailer list with exact product page URLs\<newline>'' @
     ''             Detailed warranty information\<newline>'' @
     ''             Stock availability status\<newline>'' @
     ''             Curated customer reviews (positive and negative)\<newline>'' @
     ''             Technical specifications comparison\<newline>'' @
     ''             Return policy details\<newline>'' @
     ''            ''"

definition deal_finding_description :: string where
  "deal_finding_description =
     ''Using the research findings, analyze current deals:\<newline>'' @
     ''            \<newline>'' @
     ''            Required Steps:\<newline>'' @
     ''            1. Verify current prices and promotions\<newline>'' @
     ''            2. Document specific promotion dates\<newline>'' @
     ''            3. Detail all terms and conditions\<newline>'' @
     ''            4. Compare warranty options\<newline>'' @
     ''            5. Check stock availability for deals\<newline>'' @
     ''            6. Verify shipping timeframes\<newline>'' @
     ''            \<newline>'' @
     ''            Provide for each retailer:\<newline>'' @
     ''            - Current price with promotion dates\<newline>'' @
     ''            - Detailed terms and conditions\<newline>'' @
     ''            - Warranty options and costs\<newline>'' @
     ''            - Stock availability status\<newline>'' @
     ''            - Shipping/pickup options and timeframes\<newline>'' @
     ''            - Total cost breakdown including all fees''"

definition deal_finding_expected_output :: string where
  "deal_finding_expected_output =
     ''Detailed deals analysis which should include:\<newline>'' @
     ''            Current price with promotion dates\<newline>'' @
     ''            Detailed terms and conditions\<newline>'' @
     ''            Warranty options and costs\<newline>'' @
     ''            Stock availability status\<newline>'' @
     ''            Shipping/pickup options and timeframes\<newline>'' @
     ''            Total cost breakdown including all fees\<newline>'' @
     ''            ''"

definition report_description :: string where
  "report_description =
     ''Create a comprehensive shopping report including:\<newline>'' @
     ''            \<newline>'' @
     ''            1. Executive Summary\<newline>'' @
     ''               - Top recommendation with reasoning\<newline>'' @
     ''               - Price range overview with specific dates\<newline>'' @
     ''               - Best current deal with terms\<newline>'' @
     ''            \<newline>'' @
     ''            2. Product Details\<newline>'' @
     ''               - Verified model numbers and specifications\<newline>'' @
     ''               - Detailed pros and cons\<newline>'' @
     ''               - Curated customer reviews (minimum 5 positive and 5 negative)\<newline>'' @
     ''               - Warranty options comparison\<newline>'' @
     ''            \<newline>'' @
     ''            3. Price and Availability Comparison\<newline>'' @
     ''               - Retailer comparison table with exact URLs\<newline>'' @
     ''               - Current stock availability\<newline>'' @
     ''               - Promotion dates and terms\<newline>'' @
     ''               - Complete cost breakdown\<newline>'' @
     ''            \<newline>'' @
     ''            4. Buying Guide\<newline>'' @
     ''               - Best retailer choice with reasoning\<newline>'' @
     ''               - Stock availability alerts\<newline>'' @
     ''               - Direct product page links\<newline>'' @
     ''               - Warranty recommendations\<newline>'' @
     ''            \<newline>'' @
     ''            Format the report clearly with sections and bullet points.\<newline>'' @
     ''            Include specific dates, model numbers, and direct links.''"

definition report_expected_output :: string where
  "report_expected_output =
     ''Final shopping report which includes clearly with sections and bullet points.\<newline>'' @
     ''            Include specific dates, model numbers, and direct links''"

definition create_tasks ::
  "ShoppingCrew \<Rightarrow> string \<Rightarrow> Agent \<Rightarrow> Agent \<Rightarrow> Agent \<Rightarrow> Agent \<Rightarrow> Task list" where
  "create_tasks self query verification_agent research_agent deal_finder_agent report_agent =
     (let
       verification_task =
         Task (verification_description query) verification_agent []
           verification_expected_output;
       research_task =
         Task (research_description query) research_agent [verification_task]
           research_expected_output;
       deal_finding_task =
         Task deal_finding_description deal_finder_agent [verification_task, research_task]
           deal_finding_expected_output;
       report_task =
         Task report_description report_agent
           [verification_task, research_task, deal_finding_task]
           report_expected_output
      in [verification_task, research_task, deal_finding_task, report_task])"

text \<open>\<^verbatim>\<open>crew.kickoff()\<close>: the call is recorded with the stages the executor reports.\<close>

definition kickoff ::
  "externals \<Rightarrow> Crew \<Rightarrow> process_state \<Rightarrow> process_state \<times> (exn + string)" where
  "kickoff ext crew s =
     (case crew_kickoff ext (environ s) crew of
        (executed, r) \<Rightarrow>
          (s\<lparr>calls := calls s @ [Kickoff crew (environ s)], stages := stages s @ executed\<rparr>, r))"

text \<open>\<^verbatim>\<open>ShoppingCrew.run\<close>.\<close>

definition run ::
  "externals \<Rightarrow> ShoppingCrew \<Rightarrow> string \<Rightarrow> process_state \<Rightarrow> process_state \<times> (exn + string)" where
  "run ext self query s =
     (case create_agents self of
        (verification_agent, research_agent, deal_finder_agent, report_agent) \<Rightarrow>
          let tasks' = create_tasks self query verification_agent research_agent
                         deal_finder_agent report_agent;
              crew = \<lparr>agents = [verification_agent, research_agent, deal_finder_agent,
                               report_agent],
                      tasks = tasks',
                      verbose = True,
                      process = sequential\<rparr>
          in kickoff ext crew s)"

section \<open>The request handler\<close>

definition validate_api_keys :: "string \<Rightarrow> string \<Rightarrow> string option" where
  "validate_api_keys openai_key serper_key =
     (if strip openai_key = [] \<or> strip serper_key = []
      then Some ''Please enter both API keys''
      else None)"

text \<open>Python's truth value of the validator's result: \<^verbatim>\<open>None\<close> and the empty string are false.\<close>

definition truthy :: "string option \<Rightarrow> bool" where
  "truthy v = (case v of None \<Rightarrow> False | Some msg \<Rightarrow> msg \<noteq> [])"

text \<open>
  \<^verbatim>\<open>search_products\<close>. The early return leaves the state as it is; otherwise the two
  assignments to \<^verbatim>\<open>os.environ\<close> come first, and the \<^verbatim>\<open>try\<close> block turns an exception of
  the constructor or of the run into the error text.
\<close>

definition search_products ::
  "externals \<Rightarrow> string \<Rightarrow> string \<Rightarrow> string \<Rightarrow> process_state \<Rightarrow> process_state \<times> string" where
  "search_products ext openai_key serper_key query s =
     (let validation_error = validate_api_keys openai_key serper_key in
      if truthy validation_error then (s, the validation_error)
      else
        let s1 = s\<lparr>environ := (environ s)(''OPENAI_API_KEY'' \<mapsto> openai_key)\<rparr>;
            s2 = s1\<lparr>environ := (environ s1)(''SERPER_API_KEY'' \<mapsto> serper_key)\<rparr>
        in case ShoppingCrew_init ext s2 of
             (s3, Inl e) \<Rightarrow> (s3, ''An error occurred: '' @ str e)
           | (s3, Inr shopping_crew) \<Rightarrow>
               (case run ext shopping_crew query s3 of
                  (s4, Inl e) \<Rightarrow> (s4, ''An error occurred: '' @ str e)
                | (s4, Inr result) \<Rightarrow> (s4, result)))"

section \<open>The sequential executor\<close>

text \<open>
  Modelled from the spec: the framework's sequential executor behind \<^verbatim>\<open>crew.kickoff()\<close>,
  which is a dependency of the program and not part of its source. The spec describes it
  as a state machine over the tasks in their order: a stage invokes the language model of
  the task's agent with the effective prompt, stores the raw text and advances; an
  exception aborts the run; the last task's output is the result. The effective prompt of
  a task is its description followed by the stored outputs of the tasks in its context.
  \<open>llm a p\<close> is the outcome of invoking the model of agent \<open>a\<close> on prompt \<open>p\<close>.
\<close>

type_synonym llm = "Agent \<Rightarrow> string \<Rightarrow> exn + string"

definition effective_prompt :: "(Task \<times> string) list \<Rightarrow> Task \<Rightarrow> string" where
  "effective_prompt outputs t =
     description t @ concat (List.map_filter (map_of outputs) (context_tasks t))"

text \<open>
  Modelled from the spec: the stages, given the outputs stored so far. The result is the
  list of stages entered (task and effective prompt) and the exception that aborted the
  run or the outputs stored at its end.
\<close>

fun run_stages ::
  "llm \<Rightarrow> Task list \<Rightarrow> (Task \<times> string) list \<Rightarrow>
     (Task \<times> string) list \<times> (exn + (Task \<times> string) list)" where
  "run_stages m [] outputs = ([], Inr outputs)"
| "run_stages m (t # ts) outputs =
     (let prompt = effective_prompt outputs t in
      case m (agent t) prompt of
        Inl e \<Rightarrow> ([(t, prompt)], Inl e)
      | Inr raw \<Rightarrow>
          (case run_stages m ts (outputs @ [(t, raw)]) of
             (entered, r) \<Rightarrow> ((t, prompt) # entered, r)))"



section \<open>Notions the statements use\<close>

text \<open>A string that is empty or holds whitespace only.\<close>

definition blank :: "string \<Rightarrow> bool" where
  "blank s = list_all isspace s"


text \<open>The object \<^verbatim>\<open>ShoppingCrew()\<close> yields when its three constructors return.\<close>

definition the_shopping_crew :: ShoppingCrew where
  "the_shopping_crew =
     \<lparr>search_tool = SerperDevTool, website_search_tool = WebsiteSearchTool,
      scrape_tool = ScrapeWebsiteTool\<rparr>"

text \<open>The tasks and the crew that \<^verbatim>\<open>run\<close> hands to \<^verbatim>\<open>kickoff\<close>.\<close>

definition the_tasks :: "ShoppingCrew \<Rightarrow> string \<Rightarrow> Task list" where
  "the_tasks self query =
     (case create_agents self of
        (verification_agent, research_agent, deal_finder_agent, report_agent) \<Rightarrow>
          create_tasks self query verification_agent research_agent deal_finder_agent
            report_agent)"



text \<open>
  The exception that leaves the \<^verbatim>\<open>try\<close> block of the handler in environment \<open>env\<close>, if any:
  the first tool constructor that raises, else what \<^verbatim>\<open>kickoff\<close> raises.
\<close>

definition construction_failure :: "externals \<Rightarrow> environ \<Rightarrow> exn option" where
  "construction_failure ext env =
     (case new_tool ext env SerperDevTool of
        Some e \<Rightarrow> Some e
      | None \<Rightarrow>
     (case new_tool ext env WebsiteSearchTool of
        Some e \<Rightarrow> Some e
      | None \<Rightarrow> new_tool ext env ScrapeWebsiteTool))"



section \<open>Validation\<close>

lemma strip_empty_iff: "strip s = [] \<longleftrightarrow> blank s"
proof -
  have "strip s = [] \<longleftrightarrow> (\<forall>c\<in>set (dropWhile isspace s). isspace c)"
    by (simp add: strip_def)
  also have "\<dots> \<longleftrightarrow> (\<forall>c\<in>set s. isspace c)"
  proof
    assume h: "\<forall>c\<in>set (dropWhile isspace s). isspace c"
    show "\<forall>c\<in>set s. isspace c"
    proof
      fix c assume "c \<in> set s"
      then have "c \<in> set (takeWhile isspace s) \<or> c \<in> set (dropWhile isspace s)"
        by (metis Un_iff set_append takeWhile_dropWhile_id)
      then show "isspace c" using h by (auto dest: set_takeWhileD)
    qed
  next
    assume "\<forall>c\<in>set s. isspace c"
    then show "\<forall>c\<in>set (dropWhile isspace s). isspace c"
      by (auto dest: set_dropWhileD)
  qed
  finally show ?thesis by (simp add: blank_def list_all_iff)
qed

lemma validate_blank:
  "blank a \<or> blank b \<Longrightarrow> validate_api_keys a b = Some ''Please enter both API keys''"
  by (simp add: validate_api_keys_def strip_empty_iff)


section \<open>The run and its calls\<close>



lemma kickoff_calls: "calls (fst (kickoff ext crew s)) = calls s @ [Kickoff crew (environ s)]"
  by (simp add: kickoff_def split: prod.splits)

lemma kickoff_result: "snd (kickoff ext crew s) = snd (crew_kickoff ext (environ s) crew)"
  by (simp add: kickoff_def split: prod.splits)

lemma kickoff_stages:
  "stages (fst (kickoff ext crew s)) = stages s @ fst (crew_kickoff ext (environ s) crew)"
  by (simp add: kickoff_def split: prod.splits)

lemma construct_tool_eq:
  "construct_tool ext t s =
     (s\<lparr>calls := calls s @ [New_tool t (environ s)]\<rparr>,
      case new_tool ext (environ s) t of Some e \<Rightarrow> Inl e | None \<Rightarrow> Inr t)"
  by (simp add: construct_tool_def Let_def split: option.splits)




lemma init_calls_start:
  "\<exists>rest. calls (fst (ShoppingCrew_init ext s)) = calls s @ New_tool SerperDevTool (environ s) # rest"
  by (simp add: ShoppingCrew_init_def construct_tool_eq split: option.splits)



lemma init_failure_calls:
  "construction_failure ext (environ s) = Some e \<Longrightarrow>
   \<forall>c \<in> set (calls (fst (ShoppingCrew_init ext s))) - set (calls s). \<exists>t. c = New_tool t (environ s)"
  by (auto simp add: ShoppingCrew_init_def construct_tool_eq construction_failure_def
      split: option.splits)


lemma search_products_invalid:
  "blank a \<or> blank b \<Longrightarrow>
   search_products ext a b q s = (s, ''Please enter both API keys'')"
  by (simp add: search_products_def validate_blank truthy_def)







section \<open>The claims about the handler\<close>

text \<open>
  Claim C8: when validation fails (a credential is empty or whitespace-only), the handler
  returns before the assignments to the environment: the whole state, and so the variables
  \<^verbatim>\<open>OPENAI_API_KEY\<close> and \<^verbatim>\<open>SERPER_API_KEY\<close>, is unchanged.
\<close>

theorem validation_failure_leaves_state:
  "blank openai_key \<or> blank serper_key \<Longrightarrow>
   fst (search_products ext openai_key serper_key query s) = s \<and>
   environ (fst (search_products ext openai_key serper_key query s)) ''OPENAI_API_KEY'' =
     environ s ''OPENAI_API_KEY'' \<and>
   environ (fst (search_products ext openai_key serper_key query s)) ''SERPER_API_KEY'' =
     environ s ''SERPER_API_KEY''"
  by (simp add: search_products_invalid)

theorem validation_failure_leaves_state_witness:
  "blank ''  '' \<and>
   fst (search_products
         \<lparr>new_tool = \<lambda>env t. None, crew_kickoff = \<lambda>env crew. ([], Inr ''report'')\<rparr>
         ''sk-1'' ''  '' ''monitor''
         \<lparr>environ = [''OPENAI_API_KEY'' \<mapsto> ''old''], calls = [], stages = []\<rparr>) =
     \<lparr>environ = [''OPENAI_API_KEY'' \<mapsto> ''old''], calls = [], stages = []\<rparr>"
  using validation_failure_leaves_state
    [of "''sk-1''" "''  ''"
        "\<lparr>new_tool = \<lambda>env t. None, crew_kickoff = \<lambda>env crew. ([], Inr ''report'')\<rparr>"
        "''monitor''"
        "\<lparr>environ = [''OPENAI_API_KEY'' \<mapsto> ''old''], calls = [], stages = []\<rparr>"]
  by (simp add: blank_def isspace_def)








section \<open>The claims about agents and tasks\<close>

lemma the_tasks_eq:
  "create_agents self = (v, r, d, rp) \<Longrightarrow> the_tasks self query = create_tasks self query v r d rp"
  by (simp add: the_tasks_def)

text \<open>
  Claim C10: the tool sets of the four agents are fixed and unequal. The verification
  agent holds the search tool and the website-search tool and not the scrape tool; the
  research agent and the deal-finding agent hold all three; the report agent holds none,
  so the agent of the fourth task brings no tool to its stage.
\<close>

theorem agents_tool_sets:
  "(case create_agents self of
      (verification_agent, research_agent, deal_finder_agent, report_agent) \<Rightarrow>
        tools verification_agent = [search_tool self, website_search_tool self] \<and>
        tools research_agent = [search_tool self, website_search_tool self, scrape_tool self] \<and>
        tools deal_finder_agent =
          [search_tool self, website_search_tool self, scrape_tool self] \<and>
        tools report_agent = []) \<and>
   (case create_agents the_shopping_crew of
      (verification_agent, research_agent, deal_finder_agent, report_agent) \<Rightarrow>
        set (tools verification_agent) = {SerperDevTool, WebsiteSearchTool} \<and>
        ScrapeWebsiteTool \<notin> set (tools verification_agent) \<and>
        set (tools research_agent) = {SerperDevTool, WebsiteSearchTool, ScrapeWebsiteTool} \<and>
        set (tools deal_finder_agent) = {SerperDevTool, WebsiteSearchTool, ScrapeWebsiteTool} \<and>
        set (tools report_agent) = {}) \<and>
   map (\<lambda>t. tools (agent t)) (the_tasks the_shopping_crew query) =
     [[SerperDevTool, WebsiteSearchTool],
      [SerperDevTool, WebsiteSearchTool, ScrapeWebsiteTool],
      [SerperDevTool, WebsiteSearchTool, ScrapeWebsiteTool],
      []]"
  by (simp add: create_agents_def the_tasks_def create_tasks_def the_shopping_crew_def Let_def)

theorem agents_tool_sets_witness:
  "map (\<lambda>t. tools (agent t)) (the_tasks the_shopping_crew ''monitor'') =
     [[SerperDevTool, WebsiteSearchTool],
      [SerperDevTool, WebsiteSearchTool, ScrapeWebsiteTool],
      [SerperDevTool, WebsiteSearchTool, ScrapeWebsiteTool],
      []]"
  using agents_tool_sets [of the_shopping_crew "''monitor''"] by simp

text \<open>
  Claim C4, as stated, fails: the description of the second (research) task is an
  f-string too and embeds the query, so it changes with the query.
\<close>

theorem research_description_embeds_query:
  "take 40 (description (the_tasks the_shopping_crew ''monitor'' ! 1)) =
     ''Research this product in detail: monitor'' \<and>
   description (the_tasks the_shopping_crew ''monitor'' ! 1) \<noteq>
     description (the_tasks the_shopping_crew ''kettle'' ! 1)"
  by (cases "create_agents the_shopping_crew")
    (simp add: the_tasks_def create_tasks_def Let_def research_description_def)

text \<open>
  Claim C4, amended: task construction is data construction without branching; the
  query is interpolated into the descriptions of the first (verification) and the second
  (research) task, right after their opening phrase and before a fixed remainder; the
  descriptions of the third and fourth task are fixed texts; each task is bound to the
  agent passed for it.
\<close>

theorem query_in_first_two_descriptions:
  "\<exists>rest1 rest2 d3 d4. \<forall>self query v r d rp.
     map description (create_tasks self query v r d rp) =
       [''Verify exact product specifications for: '' @ query @ rest1,
        ''Research this product in detail: '' @ query @ rest2,
        d3, d4] \<and>
     map agent (create_tasks self query v r d rp) = [v, r, d, rp]"
proof (intro exI allI)
  fix self :: ShoppingCrew and query :: string and v r d rp :: Agent
  show "map description (create_tasks self query v r d rp) =
       [''Verify exact product specifications for: '' @ query @
          drop 41 (verification_description []),
        ''Research this product in detail: '' @ query @ drop 33 (research_description []),
        deal_finding_description, report_description] \<and>
     map agent (create_tasks self query v r d rp) = [v, r, d, rp]"
    by (simp add: create_tasks_def Let_def verification_description_def
        research_description_def)
qed

theorem query_in_first_two_descriptions_witness:
  "\<exists>rest1 rest2 d3 d4.
     map description (the_tasks the_shopping_crew ''monitor'') =
       [''Verify exact product specifications for: monitor'' @ rest1,
        ''Research this product in detail: monitor'' @ rest2,
        d3, d4]"
proof -
  obtain v r d rp where a: "create_agents the_shopping_crew = (v, r, d, rp)"
    by (cases "create_agents the_shopping_crew")
  from query_in_first_two_descriptions obtain rest1 rest2 d3 d4 where
    h: "\<forall>self query v r d rp.
     map description (create_tasks self query v r d rp) =
       [''Verify exact product specifications for: '' @ query @ rest1,
        ''Research this product in detail: '' @ query @ rest2,
        d3, d4] \<and>
     map agent (create_tasks self query v r d rp) = [v, r, d, rp]"
    by (elim exE)
  from h have
    "map description (create_tasks the_shopping_crew ''monitor'' v r d rp) =
       [''Verify exact product specifications for: '' @ ''monitor'' @ rest1,
        ''Research this product in detail: '' @ ''monitor'' @ rest2,
        d3, d4]"
    by (elim allE conjE)
  then show ?thesis
    unfolding the_tasks_eq [OF a] by auto
qed

section \<open>The sequential executor: what a run enters and stores\<close>

lemma run_stages_success:
  "run_stages m ts outs = (entered, Inr outs') \<Longrightarrow>
   \<exists>raws. length raws = length ts \<and> outs' = outs @ zip ts raws \<and> map fst entered = ts \<and>
     (\<forall>i<length ts.
        snd (entered ! i) = effective_prompt (outs @ zip (take i ts) (take i raws)) (ts ! i) \<and>
        m (agent (ts ! i)) (snd (entered ! i)) = Inr (raws ! i))"
proof (induction ts arbitrary: outs entered)
  case Nil
  then show ?case by simp
next
  case (Cons t ts)
  let ?p = "effective_prompt outs t"
  from Cons.prems obtain raw where raw: "m (agent t) ?p = Inr raw"
    by (cases "m (agent t) ?p") (simp_all add: Let_def)
  obtain entered' r where rest: "run_stages m ts (outs @ [(t, raw)]) = (entered', r)"
    by (cases "run_stages m ts (outs @ [(t, raw)])")
  with Cons.prems raw have e: "entered = (t, ?p) # entered'" and r: "r = Inr outs'"
    by (simp_all add: Let_def)
  from Cons.IH [OF rest [unfolded r]] obtain raws where
    raws: "length raws = length ts" "outs' = (outs @ [(t, raw)]) @ zip ts raws"
      "map fst entered' = ts"
      "\<forall>i<length ts.
        snd (entered' ! i) =
          effective_prompt ((outs @ [(t, raw)]) @ zip (take i ts) (take i raws)) (ts ! i) \<and>
        m (agent (ts ! i)) (snd (entered' ! i)) = Inr (raws ! i)"
    by blast
  show ?case
  proof (intro exI [of _ "raw # raws"] conjI allI impI)
    show "length (raw # raws) = length (t # ts)" using raws(1) by simp
    show "outs' = outs @ zip (t # ts) (raw # raws)" using raws(2) by simp
    show "map fst entered = t # ts" using e raws(3) by simp
  next
    fix i assume i: "i < length (t # ts)"
    show "snd (entered ! i) =
        effective_prompt (outs @ zip (take i (t # ts)) (take i (raw # raws))) ((t # ts) ! i)"
      using i e raws(4) by (cases i) simp_all
    show "m (agent ((t # ts) ! i)) (snd (entered ! i)) = Inr ((raw # raws) ! i)"
      using i e raw raws(4) by (cases i) auto
  qed
qed


lemma run_stages_completes:
  assumes "\<forall>a p. \<exists>raw. m a p = Inr raw"
  shows "\<exists>entered outs'. run_stages m ts outs = (entered, Inr outs')"
proof (induction ts arbitrary: outs)
  case Nil
  show ?case by simp
next
  case (Cons t ts)
  from assms obtain raw where raw: "m (agent t) (effective_prompt outs t) = Inr raw"
    by blast
  from Cons [of "outs @ [(t, raw)]"] obtain entered outs' where
    "run_stages m ts (outs @ [(t, raw)]) = (entered, Inr outs')"
    by blast
  with raw show ?case by (simp add: Let_def)
qed

lemma map_filter_zip:
  "distinct ks \<Longrightarrow> length vs = length ks \<Longrightarrow> List.map_filter (map_of (zip ks vs)) ks = vs"
proof (induction ks arbitrary: vs)
  case Nil
  then show ?case by (simp add: List.map_filter_simps)
next
  case (Cons k ks)
  then obtain v vs' where vs: "vs = v # vs'" by (cases vs) auto
  with Cons.prems have len: "length vs' = length ks" and k: "k \<notin> set ks" and d: "distinct ks"
    by simp_all
  have "List.map_filter (map_of (zip (k # ks) (v # vs'))) (k # ks) =
        v # List.map_filter ((map_of (zip ks vs'))(k \<mapsto> v)) ks"
    by (simp add: List.map_filter_simps)
  also have "List.map_filter ((map_of (zip ks vs'))(k \<mapsto> v)) ks =
        List.map_filter (map_of (zip ks vs')) ks"
    using k by (auto simp add: List.map_filter_def intro!: filter_cong map_cong)
  also have "\<dots> = vs'" by (rule Cons.IH [OF d len])
  finally show ?case by (simp add: vs)
qed

lemma effective_prompt_prefix:
  assumes "distinct ts" "length raws = length ts" "i < length ts"
    and "context_tasks (ts ! i) = take i ts"
  shows "effective_prompt (zip (take i ts) (take i raws)) (ts ! i) =
           description (ts ! i) @ concat (take i raws)"
proof -
  have "List.map_filter (map_of (zip (take i ts) (take i raws))) (take i ts) = take i raws"
    using assms(1,2) by (intro map_filter_zip) simp_all
  then show ?thesis by (simp add: effective_prompt_def assms(4))
qed

section \<open>The four tasks\<close>

lemma hd_descriptions:
  "hd (verification_description q) = CHR ''V''"
  "hd (research_description q) = CHR ''R''"
  "hd deal_finding_description = CHR ''U''"
  "hd report_description = CHR ''C''"
  by (simp_all add: verification_description_def research_description_def
      deal_finding_description_def report_description_def)

lemma differ_by_hd: "hd a \<noteq> hd b \<Longrightarrow> a \<noteq> b"
  by auto

lemma descriptions_differ:
  "verification_description q \<noteq> research_description q'"
  "verification_description q \<noteq> deal_finding_description"
  "verification_description q \<noteq> report_description"
  "research_description q \<noteq> deal_finding_description"
  "research_description q \<noteq> report_description"
  "deal_finding_description \<noteq> report_description"
  by (rule differ_by_hd, simp add: hd_descriptions)+

lemma create_tasks_length: "length (create_tasks self query v r d rp) = 4"
  by (simp add: create_tasks_def Let_def)

lemma create_tasks_distinct: "distinct (create_tasks self query v r d rp)"
  by (simp add: create_tasks_def Let_def descriptions_differ)

lemma below_four: "n < 4 \<longleftrightarrow> n = 0 \<or> n = 1 \<or> n = 2 \<or> n = (3::nat)"
  by arith

lemma create_tasks_contexts:
  "n < 4 \<Longrightarrow>
   context_tasks (create_tasks self query v r d rp ! n) =
     take n (create_tasks self query v r d rp)"
  by (auto simp add: below_four create_tasks_def Let_def)

lemma the_tasks_roles:
  "map (\<lambda>t. role (agent t)) (the_tasks self query) =
     [''Product Specification Verifier'', ''Product Research Specialist'',
      ''Deals Analysis Expert'', ''Shopping Report Specialist'']"
  by (simp add: the_tasks_def create_agents_def create_tasks_def Let_def)



section \<open>The claims about the chain of tasks and the stages\<close>

lemma chained_run:
  assumes run: "run_stages m (create_tasks self query v r d rp) [] = (entered, Inr outputs)"
  shows "map fst entered = create_tasks self query v r d rp"
    and "map fst outputs = create_tasks self query v r d rp"
    and "n < 4 \<Longrightarrow>
           snd (entered ! n) =
             description (create_tasks self query v r d rp ! n) @
             concat (map snd (take n outputs))"
    and "n < 4 \<Longrightarrow>
           m (agent (create_tasks self query v r d rp ! n)) (snd (entered ! n)) =
             Inr (snd (outputs ! n))"
proof -
  let ?T = "create_tasks self query v r d rp"
  from run_stages_success [OF run] obtain raws where
    len: "length raws = length ?T" and outs: "outputs = zip ?T raws" and
    ent: "map fst entered = ?T" and
    each: "\<forall>i<length ?T.
        snd (entered ! i) = effective_prompt ([] @ zip (take i ?T) (take i raws)) (?T ! i) \<and>
        m (agent (?T ! i)) (snd (entered ! i)) = Inr (raws ! i)"
    by auto
  show "map fst entered = ?T" by (rule ent)
  show "map fst outputs = ?T" using len outs by simp
  assume n: "n < 4"
  then have n': "n < length ?T" by (simp add: create_tasks_length)
  have "snd (entered ! n) = effective_prompt (zip (take n ?T) (take n raws)) (?T ! n)"
    using each n' by simp
  also have "\<dots> = description (?T ! n) @ concat (take n raws)"
    using create_tasks_distinct len n' create_tasks_contexts [OF n]
    by (rule effective_prompt_prefix)
  also have "take n raws = map snd (take n outputs)"
    using len outs by (simp add: take_map [symmetric])
  finally show "snd (entered ! n) = description (?T ! n) @ concat (map snd (take n outputs))" .
  have "m (agent (?T ! n)) (snd (entered ! n)) = Inr (raws ! n)"
    using each n' by blast
  then show "m (agent (?T ! n)) (snd (entered ! n)) = Inr (snd (outputs ! n))"
    using n' len outs by simp
qed

text \<open>
  Claim C3: for every query, the four tasks that \<^verbatim>\<open>create_tasks\<close> builds are chained: the
  context of task \<open>n\<close> is exactly the list of the tasks before it, in order (none for the
  first; verification for the second; verification, research for the third; verification,
  research, deal finding for the fourth). Hence, in a run of the sequential executor
  without exception, the prompt of each stage is the task's description followed by the
  outputs of all earlier stages in order, each output being what the language model
  returned at that stage.
\<close>

theorem context_chaining:
  "length (create_tasks self query v r d rp) = 4 \<and>
   (\<forall>n<4. context_tasks (create_tasks self query v r d rp ! n) =
            take n (create_tasks self query v r d rp)) \<and>
   (\<forall>m entered outputs.
      run_stages m (create_tasks self query v r d rp) [] = (entered, Inr outputs) \<longrightarrow>
      map fst entered = create_tasks self query v r d rp \<and>
      map fst outputs = create_tasks self query v r d rp \<and>
      (\<forall>n<4. snd (entered ! n) =
                 description (create_tasks self query v r d rp ! n) @
                 concat (map snd (take n outputs)) \<and>
               m (agent (create_tasks self query v r d rp ! n)) (snd (entered ! n)) =
                 Inr (snd (outputs ! n))))"
  using create_tasks_length create_tasks_contexts chained_run
  by (intro conjI allI impI) blast+


theorem context_chaining_witness:
  "snd (fst (run_stages (\<lambda>a p. Inr (role a)) (the_tasks the_shopping_crew ''monitor'') []) ! 1) =
     description (the_tasks the_shopping_crew ''monitor'' ! 1) @
     ''Product Specification Verifier''"
proof -
  let ?m = "\<lambda>(a::Agent) (p::string). (Inr (role a) :: exn + string)"
  let ?T = "the_tasks the_shopping_crew ''monitor''"
  obtain v r d rp where a: "create_agents the_shopping_crew = (v, r, d, rp)"
    by (cases "create_agents the_shopping_crew")
  have T: "?T = create_tasks the_shopping_crew ''monitor'' v r d rp"
    by (rule the_tasks_eq [OF a])
  have "\<forall>a p. \<exists>raw. ?m a p = Inr raw" by simp
  from run_stages_completes [OF this, of ?T "[]"] obtain entered outputs where
    run: "run_stages ?m ?T [] = (entered, Inr outputs)"
    by blast
  note c = context_chaining [of the_shopping_crew "''monitor''" v r d rp, folded T]
  from c run have fst_outs: "map fst outputs = ?T" by blast
  from c have "length ?T = 4" by blast
  with fst_outs have len: "length outputs = 4" by (metis length_map)
  from c run have p1: "snd (entered ! 1) = description (?T ! 1) @ concat (map snd (take 1 outputs))"
    by (elim conjE allE [of _ ?m] allE [of _ entered] allE [of _ outputs] allE [of _ "1::nat"]) simp
  from c run have "?m (agent (?T ! 0)) (snd (entered ! 0)) = Inr (snd (outputs ! 0))"
    by (elim conjE allE [of _ ?m] allE [of _ entered] allE [of _ outputs] allE [of _ "0::nat"]) simp
  then have o0: "snd (outputs ! 0) = role (agent (?T ! 0))" by simp
  have "map (\<lambda>t. role (agent t)) ?T ! 0 = ''Product Specification Verifier''"
    unfolding the_tasks_roles by simp
  with \<open>length ?T = 4\<close> have r0: "role (agent (?T ! 0)) = ''Product Specification Verifier''"
    by simp
  from len have "take 1 outputs = [outputs ! 0]"
    by (cases outputs) simp_all
  with p1 o0 r0 have "snd (entered ! 1) = description (?T ! 1) @ ''Product Specification Verifier''"
    by simp
  with run show ?thesis by simp
qed

section \<open>The handler over the sequential executor\<close>












section \<open>Concrete requests over the sequential executor\<close>





end
